theory Spec2Isabelle
  imports Complex_Main "HOL-Library.Sublist" "HOL-Library.Multiset" "HOL-Library.AList"
begin

section \<open>Values and errors\<close>

text \<open>
  The script \<^verbatim>\<open>plot.py\<close> reads a JSON array of records from standard input, turns each into
  a \<^verbatim>\<open>Mood\<close> and computes the series of six charts. The embedding covers the computed
  series; the plotting calls themselves (seaborn, matplotlib) are not modelled.

  A decoded JSON value. Python strings are modelled as \<^typ>\<open>string\<close>, one \<^typ>\<open>char\<close> per code
  point (code points below 256). A JSON float is kept as the rational number it denotes;
  \<^verbatim>\<open>NaN\<close> and the infinities, which \<^verbatim>\<open>json.loads\<close> accepts, are separate constructors.
\<close>

datatype pyfloat = Finite rat | Infinite | NaN

datatype json =
    JNull
  | JBool bool
  | JInt int
  | JFloat pyfloat
  | JStr string
  | JList "json list"
  | JObj "(string \<times> json) list"

text \<open>The exceptions the script can raise; none is caught, so each aborts the run.\<close>

datatype error =
    ZeroDivisionError
  | ValueError
  | TypeError
  | IndexError
  | KeyError
  | OverflowError
  | AttributeError

text \<open>\<^verbatim>\<open>datetime\<close>, as far as the script reads it: year, month and day.\<close>

record datetime =
  year :: int
  month :: int
  day :: int

text \<open>
  The dataclass \<^verbatim>\<open>Mood\<close>. \<^verbatim>\<open>type\<close> and \<^verbatim>\<open>notes\<close> hold whatever \<^verbatim>\<open>data.get\<close>
  returned, so they are JSON values (the field \<^verbatim>\<open>notes\<close> is written
  \<open>notes'\<close>, the plain name being reserved). The score is an \<^verbatim>\<open>int\<close> after parsing and a float
  after smoothing, hence the type parameter.
\<close>

record 's Mood =
  type :: json
  date :: datetime
  score :: 's
  notes' :: json

section \<open>Python primitives\<close>

text \<open>
  \<^verbatim>\<open>xs[start:end]\<close> with step 1: a negative bound counts from the end of the list, and
  both bounds are clamped to the list.
\<close>

definition py_slice :: "'a list \<Rightarrow> int \<Rightarrow> int \<Rightarrow> 'a list" where
  "py_slice xs start end' =
     (let n = int (length xs);
          clamp = (\<lambda>i. if i < 0 then max 0 (i + n) else min i n);
          lo = clamp start;
          hi = clamp end'
      in take (nat (hi - lo)) (drop (nat lo) xs))"

text \<open>
  \<^verbatim>\<open>a / b\<close> on two \<^verbatim>\<open>int\<close>s: true division, which raises on a zero divisor. The
  quotient is kept exact: Python rounds it to the nearest double, and raises
  \<^verbatim>\<open>OverflowError\<close> for a quotient beyond the range of a double, which needs operands of
  more than 300 digits and is left out here.
\<close>

definition truediv :: "int \<Rightarrow> int \<Rightarrow> error + rat" where
  "truediv a b = (if b = 0 then Inl ZeroDivisionError else Inr (of_int a / of_int b))"

text \<open>\<^verbatim>\<open>len(x)\<close> on a decoded JSON value.\<close>

fun len :: "json \<Rightarrow> error + int" where
  "len (JStr s) = Inr (int (length s))"
| "len (JList xs) = Inr (int (length xs))"
| "len (JObj kvs) = Inr (int (length (remdups (map fst kvs))))"
| "len _ = Inl TypeError"

text \<open>A list comprehension whose element expression can raise: the first error wins.\<close>

fun comprehension :: "('a \<Rightarrow> error + 'b) \<Rightarrow> 'a list \<Rightarrow> error + 'b list" where
  "comprehension f [] = Inr []"
| "comprehension f (x # xs) =
     (case f x of
        Inl e \<Rightarrow> Inl e
      | Inr y \<Rightarrow> (case comprehension f xs of Inl e \<Rightarrow> Inl e | Inr ys \<Rightarrow> Inr (y # ys)))"

section \<open>Fixed-window smoothing\<close>

text \<open>
  \<^verbatim>\<open>smooth_moods\<close>: the loop over \<^verbatim>\<open>range(len(moods))\<close>, with the list built so far as
  accumulator.
\<close>

fun smooth_moods_loop ::
  "int Mood list \<Rightarrow> int \<Rightarrow> nat list \<Rightarrow> rat Mood list \<Rightarrow> error + rat Mood list" where
  "smooth_moods_loop moods window_size [] smoothed_moods = Inr smoothed_moods"
| "smooth_moods_loop moods window_size (i # is) smoothed_moods =
     (let start = max 0 (int i - window_size);
          end' = min (int (length moods)) (int i + window_size);
          window = py_slice moods start end'
      in case truediv (sum_list (map score window)) (int (length window)) of
           Inl e \<Rightarrow> Inl e
         | Inr score' \<Rightarrow>
             smooth_moods_loop moods window_size is
               (smoothed_moods @
                 [\<lparr>type = type (moods ! i), date = date (moods ! i),
                   score = score', notes' = notes' (moods ! i)\<rparr>]))"

definition smooth_moods :: "int Mood list \<Rightarrow> int \<Rightarrow> error + rat Mood list" where
  "smooth_moods moods window_size =
     smooth_moods_loop moods window_size [0..<length moods] []"

text \<open>\<^verbatim>\<open>smooth_note_len\<close>: the same loop over the lengths of the notes.\<close>

fun smooth_note_len_loop ::
  "'s Mood list \<Rightarrow> int \<Rightarrow> nat list \<Rightarrow> (datetime \<times> rat) list \<Rightarrow> error + (datetime \<times> rat) list"
  where
  "smooth_note_len_loop moods window_size [] smoothed_notes = Inr smoothed_notes"
| "smooth_note_len_loop moods window_size (i # is) smoothed_notes =
     (let start = max 0 (int i - window_size);
          end' = min (int (length moods)) (int i + window_size);
          window = py_slice moods start end'
      in case comprehension (\<lambda>mood. len (notes' mood)) window of
           Inl e \<Rightarrow> Inl e
         | Inr lens \<Rightarrow>
             (case truediv (sum_list lens) (int (length window)) of
                Inl e \<Rightarrow> Inl e
              | Inr note_len \<Rightarrow>
                  smooth_note_len_loop moods window_size is
                    (smoothed_notes @ [(date (moods ! i), note_len)])))"

definition smooth_note_len :: "'s Mood list \<Rightarrow> int \<Rightarrow> error + (datetime \<times> rat) list" where
  "smooth_note_len moods window_size =
     smooth_note_len_loop moods window_size [0..<length moods] []"

text \<open>\<^verbatim>\<open>smooth_ints\<close>: the same loop over plain integers.\<close>

fun smooth_ints_loop :: "int list \<Rightarrow> int \<Rightarrow> nat list \<Rightarrow> rat list \<Rightarrow> error + rat list" where
  "smooth_ints_loop ints window_size [] smoothed_ints = Inr smoothed_ints"
| "smooth_ints_loop ints window_size (i # is) smoothed_ints =
     (let start = max 0 (int i - window_size);
          end' = min (int (length ints)) (int i + window_size);
          window = py_slice ints start end'
      in case truediv (sum_list window) (int (length window)) of
           Inl e \<Rightarrow> Inl e
         | Inr mean \<Rightarrow> smooth_ints_loop ints window_size is (smoothed_ints @ [mean]))"

definition smooth_ints :: "int list \<Rightarrow> int \<Rightarrow> error + rat list" where
  "smooth_ints ints window_size = smooth_ints_loop ints window_size [0..<length ints] []"

text \<open>The three entries of the worked example: 2024-01-01 to 2024-01-03, scores 1, 5, 3.\<close>

definition example_moods :: "int Mood list" where
  "example_moods =
     [\<lparr>type = JStr ''Mood'', date = \<lparr>year = 2024, month = 1, day = 1\<rparr>, score = 1,
       notes' = JStr ''a''\<rparr>,
      \<lparr>type = JStr ''Mood'', date = \<lparr>year = 2024, month = 1, day = 2\<rparr>, score = 5,
       notes' = JStr ''bb''\<rparr>,
      \<lparr>type = JStr ''Mood'', date = \<lparr>year = 2024, month = 1, day = 3\<rparr>, score = 3,
       notes' = JStr ''ccc''\<rparr>]"

text \<open>
  The window of index \<open>i\<close>, as each of the three loops computes it; the theorems below
  speak about it under this name.
\<close>

definition window :: "'a list \<Rightarrow> nat \<Rightarrow> int \<Rightarrow> 'a list" where
  "window xs i window_size =
     (let start = max 0 (int i - window_size);
          end' = min (int (length xs)) (int i + window_size)
      in py_slice xs start end')"

text \<open>
  \<^verbatim>\<open>plot_mood_in_time\<close> smooths with a window of 60 and plots
  \<^verbatim>\<open>[mood.score for mood in moods]\<close>; \<open>smoothed_scores\<close> is that list for any window.
\<close>

definition smoothed_scores :: "int Mood list \<Rightarrow> int \<Rightarrow> error + rat list" where
  "smoothed_scores moods window_size =
     (case smooth_moods moods window_size of
        Inl e \<Rightarrow> Inl e
      | Inr moods' \<Rightarrow> Inr (map score moods'))"

definition plot_mood_in_time :: "int Mood list \<Rightarrow> error + rat list" where
  "plot_mood_in_time moods = smoothed_scores moods 60"

definition plot_note_len_in_time :: "'s Mood list \<Rightarrow> error + (datetime \<times> rat) list" where
  "plot_note_len_in_time moods = smooth_note_len moods 14"

section \<open>Entry parsing\<close>

text \<open>\<^verbatim>\<open>data.get(key)\<close>: the value, or \<^verbatim>\<open>None\<close> when the key is absent.\<close>

definition dict_get :: "(string \<rightharpoonup> json) \<Rightarrow> string \<Rightarrow> json" where
  "dict_get data key = (case data key of None \<Rightarrow> JNull | Some v \<Rightarrow> v)"

text \<open>
  \<^verbatim>\<open>x[0]\<close> on a decoded JSON value: the first element of a list, the first character of
  a string; a dict decoded from JSON has only string keys, so \<^verbatim>\<open>0\<close> is never one.
\<close>

fun getitem0 :: "json \<Rightarrow> error + json" where
  "getitem0 (JList xs) = (case xs of [] \<Rightarrow> Inl IndexError | x # _ \<Rightarrow> Inr x)"
| "getitem0 (JStr s) = (case s of [] \<Rightarrow> Inl IndexError | c # _ \<Rightarrow> Inr (JStr [c]))"
| "getitem0 (JObj kvs) = Inl KeyError"
| "getitem0 _ = Inl TypeError"

text \<open>
  \<^verbatim>\<open>int(x)\<close>. An \<^verbatim>\<open>int\<close> is returned as it is, a float is truncated towards zero.
  The parser of numerals in strings is a parameter \<open>int_of_str\<close> (\<open>None\<close> where
  \<^verbatim>\<open>int\<close> raises \<^verbatim>\<open>ValueError\<close>).
\<close>

fun py_int :: "(string \<Rightarrow> int option) \<Rightarrow> json \<Rightarrow> error + int" where
  "py_int int_of_str (JInt n) = Inr n"
| "py_int int_of_str (JBool b) = Inr (if b then 1 else 0)"
| "py_int int_of_str (JFloat (Finite r)) = Inr (if 0 \<le> r then \<lfloor>r\<rfloor> else \<lceil>r\<rceil>)"
| "py_int int_of_str (JFloat Infinite) = Inl OverflowError"
| "py_int int_of_str (JFloat NaN) = Inl ValueError"
| "py_int int_of_str (JStr s) =
     (case int_of_str s of None \<Rightarrow> Inl ValueError | Some n \<Rightarrow> Inr n)"
| "py_int int_of_str _ = Inl TypeError"

text \<open>
  \<^verbatim>\<open>Mood.from_dict\<close>. The keyword arguments are evaluated in the order written: type,
  date, score, notes. \<^verbatim>\<open>datetime.strptime\<close> is a parameter: \<open>strptime s fmt\<close> is
  \<open>None\<close> where the library raises \<^verbatim>\<open>ValueError\<close> (the string does not match the
  format), and it raises \<^verbatim>\<open>TypeError\<close> on an argument that is not a string.
\<close>

definition from_dict ::
  "(string \<Rightarrow> string \<Rightarrow> datetime option) \<Rightarrow> (string \<Rightarrow> int option) \<Rightarrow>
   (string \<rightharpoonup> json) \<Rightarrow> error + int Mood" where
  "from_dict strptime int_of_str data =
     (let type' = dict_get data ''type'' in
      case dict_get data ''date'' of
        JStr s \<Rightarrow>
          (case strptime s ''%Y-%m-%d'' of
             None \<Rightarrow> Inl ValueError
           | Some date' \<Rightarrow>
               (case getitem0 (dict_get data ''scores'') of
                  Inl e \<Rightarrow> Inl e
                | Inr first \<Rightarrow>
                    (case py_int int_of_str first of
                       Inl e \<Rightarrow> Inl e
                     | Inr score' \<Rightarrow>
                         Inr \<lparr>type = type', date = date', score = score',
                              notes' = dict_get data ''notes''\<rparr>)))
      | _ \<Rightarrow> Inl TypeError)"

text \<open>
  The module-level \<^verbatim>\<open>[Mood.from_dict(x) for x in json.loads(sys.stdin.read())]\<close>, from the
  decoded array on.
\<close>

definition read_moods ::
  "(string \<Rightarrow> string \<Rightarrow> datetime option) \<Rightarrow> (string \<Rightarrow> int option) \<Rightarrow>
   (string \<rightharpoonup> json) list \<Rightarrow> error + int Mood list" where
  "read_moods strptime int_of_str records = comprehension (from_dict strptime int_of_str) records"

section \<open>Monthly aggregation and ranking\<close>

text \<open>
  \<^verbatim>\<open>seq(...).group_by(func)\<close> of the PyFunctional library: it fills a dict from key to the
  list of the elements with that key and returns its items, so the keys come in the order
  of their first occurrence and each list keeps the input order.
\<close>

fun group_by_impl :: "('a \<Rightarrow> 'k) \<Rightarrow> 'a list \<Rightarrow> ('k \<times> 'a list) list \<Rightarrow> ('k \<times> 'a list) list"
  where
  "group_by_impl func [] result = result"
| "group_by_impl func (element # sequence) result =
     (case map_of result (func element) of
        Some elements \<Rightarrow>
          group_by_impl func sequence
            (AList.update (func element) (elements @ [element]) result)
      | None \<Rightarrow> group_by_impl func sequence (result @ [(func element, [element])]))"

definition group_by :: "('a \<Rightarrow> 'k) \<Rightarrow> 'a list \<Rightarrow> ('k \<times> 'a list) list" where
  "group_by func sequence = group_by_impl func sequence []"



text \<open>The key of a month group: \<^verbatim>\<open>(x.date.year, x.date.month)\<close>.\<close>

definition year_month :: "'s Mood \<Rightarrow> int \<times> int" where
  "year_month x = (year (date x), month (date x))"





section \<open>Keyword occurrences\<close>

text \<open>
  \<^verbatim>\<open>str.lower\<close> on the code points below 256: the ASCII capitals and the Latin-1 capitals
  (\<open>0xC0\<close> to \<open>0xDE\<close> without the multiplication sign \<open>0xD7\<close>) move up by 32.
\<close>

definition lower_char :: "char \<Rightarrow> char" where
  "lower_char c =
     (let n = (of_char c :: nat)
      in if (65 \<le> n \<and> n \<le> 90) \<or> (192 \<le> n \<and> n \<le> 222 \<and> n \<noteq> 215)
         then char_of (n + 32) else c)"

definition lower :: "string \<Rightarrow> string" where
  "lower s = map lower_char s"

text \<open>\<^verbatim>\<open>x.lower()\<close> on a decoded JSON value: only a string has the method.\<close>

fun json_lower :: "json \<Rightarrow> error + string" where
  "json_lower (JStr s) = Inr (lower s)"
| "json_lower _ = Inl AttributeError"

text \<open>
  \<^verbatim>\<open>sum([1 for word in words if word in x.notes.lower()])\<close>: the condition is evaluated once
  per word, so nothing is raised when there are no words; \<^verbatim>\<open>in\<close> on strings is the
  substring test.
\<close>

definition count_words :: "string set \<Rightarrow> json \<Rightarrow> error + int" where
  "count_words words note =
     (if words = {} then Inr 0
      else case json_lower note of
             Inl e \<Rightarrow> Inl e
           | Inr s \<Rightarrow> Inr (\<Sum>word \<in> {word \<in> words. sublist word s}. 1))"

text \<open>
  \<^verbatim>\<open>plot_days_containing_words\<close>, up to the two series it plots: \<^verbatim>\<open>word_count\<close> and
  \<^verbatim>\<open>smoothed_word_count\<close>.
\<close>

definition plot_days_containing_words ::
  "'s Mood list \<Rightarrow> string set \<Rightarrow> error + ((datetime \<times> int) list \<times> rat list)" where
  "plot_days_containing_words moods words =
     (let words = lower ` words
      in case comprehension
                (\<lambda>x. case count_words words (notes' x) of
                        Inl e \<Rightarrow> Inl e
                      | Inr c \<Rightarrow> Inr (date x, c))
                moods of
           Inl e \<Rightarrow> Inl e
         | Inr word_count \<Rightarrow>
             (case smooth_ints (map snd word_count) 14 of
                Inl e \<Rightarrow> Inl e
              | Inr smoothed_word_count \<Rightarrow> Inr (word_count, smoothed_word_count)))"

section \<open>The loops as comprehensions\<close>

text \<open>
  One pass of each smoothing loop, as a function of the index. The loops are shown below
  to be the comprehension of these bodies over \<open>[0..<n]\<close>.
\<close>

definition mean_mood :: "int Mood list \<Rightarrow> int \<Rightarrow> nat \<Rightarrow> error + rat Mood" where
  "mean_mood moods k i =
     (case truediv (sum_list (map score (window moods i k))) (int (length (window moods i k))) of
        Inl e \<Rightarrow> Inl e
      | Inr s \<Rightarrow>
          Inr \<lparr>type = type (moods ! i), date = date (moods ! i), score = s,
               notes' = notes' (moods ! i)\<rparr>)"

definition mean_note :: "'s Mood list \<Rightarrow> int \<Rightarrow> nat \<Rightarrow> error + (datetime \<times> rat)" where
  "mean_note moods k i =
     (case comprehension (\<lambda>mood. len (notes' mood)) (window moods i k) of
        Inl e \<Rightarrow> Inl e
      | Inr lens \<Rightarrow>
          (case truediv (sum_list lens) (int (length (window moods i k))) of
             Inl e \<Rightarrow> Inl e
           | Inr note_len \<Rightarrow> Inr (date (moods ! i), note_len)))"

definition mean_int :: "int list \<Rightarrow> int \<Rightarrow> nat \<Rightarrow> error + rat" where
  "mean_int ints k i = truediv (sum_list (window ints i k)) (int (length (window ints i k)))"

section \<open>Entries as objects\<close>

text \<open>
  To state that smoothing leaves its input alone, the entries are also modelled as
  objects: a store is the list of the objects allocated so far, a reference is an index
  into it, and \<^verbatim>\<open>Mood(...)\<close> allocates at the end. The list \<^verbatim>\<open>moods\<close> holds references.
  The score of an object is an \<^verbatim>\<open>int\<close> or a float.
\<close>

datatype number = IntNum int | FloatNum rat

type_synonym ref = nat

type_synonym store = "number Mood list"

fun number_value :: "number \<Rightarrow> rat" where
  "number_value (IntNum n) = of_int n"
| "number_value (FloatNum r) = r"

text \<open>\<^verbatim>\<open>a + b\<close>: an \<^verbatim>\<open>int\<close> for two \<^verbatim>\<open>int\<close>s, a float otherwise.\<close>

fun add :: "number \<Rightarrow> number \<Rightarrow> number" where
  "add (IntNum a) (IntNum b) = IntNum (a + b)"
| "add a b = FloatNum (number_value a + number_value b)"

text \<open>\<^verbatim>\<open>sum(xs)\<close> starts from the \<^verbatim>\<open>int\<close> 0 and adds from the left.\<close>

definition py_sum :: "number list \<Rightarrow> number" where
  "py_sum xs = foldl add (IntNum 0) xs"

text \<open>\<^verbatim>\<open>a / b\<close> for a number and an \<^verbatim>\<open>int\<close>: always a float.\<close>

definition truediv_number :: "number \<Rightarrow> int \<Rightarrow> error + number" where
  "truediv_number a b =
     (if b = 0 then Inl ZeroDivisionError else Inr (FloatNum (number_value a / of_int b)))"

text \<open>
  \<^verbatim>\<open>smooth_moods\<close> on the store: it reads the objects of the window, allocates the new
  entry and appends the reference to \<^verbatim>\<open>smoothed_moods\<close>. It returns the store it leaves
  and the list of references.
\<close>

fun smooth_moods_store_loop ::
  "store \<Rightarrow> ref list \<Rightarrow> int \<Rightarrow> nat list \<Rightarrow> ref list \<Rightarrow> error + (store \<times> ref list)" where
  "smooth_moods_store_loop h moods window_size [] smoothed_moods = Inr (h, smoothed_moods)"
| "smooth_moods_store_loop h moods window_size (i # is) smoothed_moods =
     (let start = max 0 (int i - window_size);
          end' = min (int (length moods)) (int i + window_size);
          window = py_slice moods start end'
      in case truediv_number (py_sum (map (\<lambda>mood. score (h ! mood)) window))
                (int (length window)) of
           Inl e \<Rightarrow> Inl e
         | Inr score' \<Rightarrow>
             smooth_moods_store_loop
               (h @ [\<lparr>type = type (h ! (moods ! i)), date = date (h ! (moods ! i)),
                      score = score', notes' = notes' (h ! (moods ! i))\<rparr>])
               moods window_size is (smoothed_moods @ [length h]))"

definition smooth_moods_store ::
  "store \<Rightarrow> ref list \<Rightarrow> int \<Rightarrow> error + (store \<times> ref list)" where
  "smooth_moods_store h moods window_size =
     smooth_moods_store_loop h moods window_size [0..<length moods] []"

text \<open>One pass of the loop on the store, as a function of the index.\<close>

definition mean_object :: "store \<Rightarrow> ref list \<Rightarrow> int \<Rightarrow> nat \<Rightarrow> error + number Mood" where
  "mean_object h moods k i =
     (case truediv_number (py_sum (map (\<lambda>mood. score (h ! mood)) (window moods i k)))
             (int (length (window moods i k))) of
        Inl e \<Rightarrow> Inl e
      | Inr s \<Rightarrow>
          Inr \<lparr>type = type (h ! (moods ! i)), date = date (h ! (moods ! i)), score = s,
               notes' = notes' (h ! (moods ! i))\<rparr>)"

text \<open>The store that holds the entries of the worked example, in order.\<close>

definition example_store :: store where
  "example_store =
     map (\<lambda>m. \<lparr>type = type m, date = date m, score = IntNum (score m), notes' = notes' m\<rparr>)
       example_moods"

text \<open>
  Between the two models: an object with an \<^verbatim>\<open>int\<close> score as an entry, and a smoothed
  entry as an object.
\<close>

definition int_entry :: "number Mood \<Rightarrow> int Mood" where
  "int_entry m =
     \<lparr>type = type m, date = date m,
      score = (case score m of IntNum n \<Rightarrow> n | FloatNum r \<Rightarrow> 0), notes' = notes' m\<rparr>"

definition float_object :: "rat Mood \<Rightarrow> number Mood" where
  "float_object m = \<lparr>type = type m, date = date m, score = FloatNum (score m), notes' = notes' m\<rparr>"

section \<open>Auxiliary notions\<close>

text \<open>
  The invariant of the dict that \<^verbatim>\<open>group_by\<close> fills: one entry per key, no empty list,
  and every element under the key that \<open>func\<close> gives it.
\<close>

definition grouped :: "('a \<Rightarrow> 'k) \<Rightarrow> ('k \<times> 'a list) list \<Rightarrow> bool" where
  "grouped func result \<longleftrightarrow>
     distinct (map fst result) \<and>
     (\<forall>g \<in> set result. snd g \<noteq> [] \<and> (\<forall>x \<in> set (snd g). func x = fst g))"

text \<open>Four entries in three months, not in date order.\<close>

definition example_year :: "int Mood list" where
  "example_year =
     [\<lparr>type = JStr ''Mood'', date = \<lparr>year = 2024, month = 1, day = 31\<rparr>, score = 2,
       notes' = JStr ''Rain''\<rparr>,
      \<lparr>type = JStr ''Mood'', date = \<lparr>year = 2024, month = 2, day = 1\<rparr>, score = 4,
       notes' = JStr ''a sunny day''\<rparr>,
      \<lparr>type = JStr ''Mood'', date = \<lparr>year = 2024, month = 1, day = 15\<rparr>, score = 5,
       notes' = JStr []\<rparr>,
      \<lparr>type = JStr ''Mood'', date = \<lparr>year = 2024, month = 3, day = 1\<rparr>, score = 1,
       notes' = JStr ''rainy''\<rparr>]"

text \<open>
  For the examples of parsing: a stand-in for \<^verbatim>\<open>strptime\<close> that knows one date, and two
  records, the second with a date in another format.
\<close>

definition example_strptime :: "string \<Rightarrow> string \<Rightarrow> datetime option" where
  "example_strptime s fmt =
     (if s = ''2024-01-02'' \<and> fmt = ''%Y-%m-%d''
      then Some \<lparr>year = 2024, month = 1, day = 2\<rparr> else None)"

definition example_record :: "string \<rightharpoonup> json" where
  "example_record =
     [''type'' \<mapsto> JStr ''Mood'', ''date'' \<mapsto> JStr ''2024-01-02'',
      ''scores'' \<mapsto> JList [JInt 5, JInt 9], ''notes'' \<mapsto> JStr ''bb'']"

definition example_bad_record :: "string \<rightharpoonup> json" where
  "example_bad_record =
     [''type'' \<mapsto> JStr ''Mood'', ''date'' \<mapsto> JStr ''02/01/2024'',
      ''scores'' \<mapsto> JList [JInt 5], ''notes'' \<mapsto> JStr ''bb'']"

text \<open>The text of a note, for the entries whose note is a string.\<close>

definition note_text :: "'s Mood \<Rightarrow> string" where
  "note_text m = (case notes' m of JStr s \<Rightarrow> s | _ \<Rightarrow> [])"

section \<open>Comprehensions\<close>

lemma comprehension_length:
  "comprehension f xs = Inr ys \<Longrightarrow> length ys = length xs"
  by (induction xs arbitrary: ys) (auto split: sum.splits)

lemma comprehension_nth:
  "comprehension f xs = Inr ys \<Longrightarrow> i < length xs \<Longrightarrow> f (xs ! i) = Inr (ys ! i)"
proof (induction xs arbitrary: ys i)
  case Nil
  then show ?case by simp
next
  case (Cons x xs)
  then show ?case by (cases i) (auto split: sum.splits)
qed

lemma comprehension_map:
  "(\<And>x. x \<in> set xs \<Longrightarrow> f x = Inr (g x)) \<Longrightarrow> comprehension f xs = Inr (map g xs)"
  by (induction xs) auto

lemma comprehension_Inl:
  "comprehension f xs = Inl e \<Longrightarrow> \<exists>x \<in> set xs. f x = Inl e"
  by (induction xs) (auto split: sum.splits)

lemma comprehension_fails:
  "x \<in> set xs \<Longrightarrow> f x = Inl e \<Longrightarrow> \<exists>e'. comprehension f xs = Inl e'"
  by (induction xs) (auto split: sum.splits)

lemma comprehension_total:
  "(\<And>x. x \<in> set xs \<Longrightarrow> \<exists>y. f x = Inr y) \<Longrightarrow> \<exists>ys. comprehension f xs = Inr ys"
proof (induction xs)
  case Nil
  then show ?case by simp
next
  case (Cons x xs)
  then obtain y where "f x = Inr y" by auto
  moreover from Cons obtain ys where "comprehension f xs = Inr ys" by auto
  ultimately show ?case by simp
qed

section \<open>Smoothing: the loops and the window\<close>

lemma smooth_moods_loop_eq:
  "smooth_moods_loop moods k is acc =
     (case comprehension (mean_mood moods k) is of Inl e \<Rightarrow> Inl e | Inr ys \<Rightarrow> Inr (acc @ ys))"
  by (induction "is" arbitrary: acc)
     (auto simp: mean_mood_def window_def Let_def split: sum.splits)

lemma smooth_moods_eq:
  "smooth_moods moods k = comprehension (mean_mood moods k) [0..<length moods]"
  by (simp add: smooth_moods_def smooth_moods_loop_eq split: sum.splits)

lemma smooth_note_len_loop_eq:
  "smooth_note_len_loop moods k is acc =
     (case comprehension (mean_note moods k) is of Inl e \<Rightarrow> Inl e | Inr ys \<Rightarrow> Inr (acc @ ys))"
  by (induction "is" arbitrary: acc)
     (auto simp: mean_note_def window_def Let_def split: sum.splits)

lemma smooth_note_len_eq:
  "smooth_note_len moods k = comprehension (mean_note moods k) [0..<length moods]"
  by (simp add: smooth_note_len_def smooth_note_len_loop_eq split: sum.splits)

lemma smooth_ints_loop_eq:
  "smooth_ints_loop ints k is acc =
     (case comprehension (mean_int ints k) is of Inl e \<Rightarrow> Inl e | Inr ys \<Rightarrow> Inr (acc @ ys))"
  by (induction "is" arbitrary: acc)
     (auto simp: mean_int_def window_def Let_def split: sum.splits)

lemma smooth_ints_eq:
  "smooth_ints ints k = comprehension (mean_int ints k) [0..<length ints]"
  by (simp add: smooth_ints_def smooth_ints_loop_eq split: sum.splits)

lemma length_window:
  "i < length xs \<Longrightarrow> 0 \<le> k \<Longrightarrow>
   int (length (window xs i k)) = min (int (length xs)) (int i + k) - max 0 (int i - k)"
  by (auto simp: window_def py_slice_def Let_def min_def max_def)

lemma window_nonempty:
  "i < length xs \<Longrightarrow> 1 \<le> k \<Longrightarrow> window xs i k \<noteq> []"
  using length_window[of i xs k] by (auto simp: min_def max_def split: if_splits)

lemma window_upper:
  "i < length xs \<Longrightarrow> 0 \<le> k \<Longrightarrow> int (length (window xs i k)) \<le> 2 * k"
  using length_window[of i xs k] by (auto simp: min_def max_def split: if_splits)

lemma window_last_empty:
  "xs \<noteq> [] \<Longrightarrow> k \<le> 0 \<Longrightarrow> window xs (length xs - 1) k = []"
  by (auto simp: window_def py_slice_def Let_def min_def max_def)

lemma mean_mood_ok:
  "i < length ms \<Longrightarrow> 1 \<le> k \<Longrightarrow> \<exists>y. mean_mood ms k i = Inr y"
  using window_nonempty[of i ms k] by (simp add: mean_mood_def truediv_def)

lemma mean_int_ok:
  "i < length xs \<Longrightarrow> 1 \<le> k \<Longrightarrow> \<exists>y. mean_int xs k i = Inr y"
  using window_nonempty[of i xs k] by (simp add: mean_int_def truediv_def)

lemma mean_mood_err: "mean_mood ms k i = Inl e \<Longrightarrow> e = ZeroDivisionError"
  by (auto simp: mean_mood_def truediv_def split: sum.splits if_splits)


lemma smooth_moods_ok:
  assumes "1 \<le> k \<or> ms = []"
  shows "\<exists>out. smooth_moods ms k = Inr out \<and> length out = length ms"
proof -
  have "\<exists>ys. comprehension (mean_mood ms k) [0..<length ms] = Inr ys"
    using assms by (intro comprehension_total) (auto intro: mean_mood_ok)
  then show ?thesis
    using comprehension_length by (fastforce simp: smooth_moods_eq)
qed

lemma smooth_moods_fail:
  assumes "k \<le> 0" and "ms \<noteq> []"
  shows "smooth_moods ms k = Inl ZeroDivisionError"
proof -
  have "mean_mood ms k (length ms - 1) = Inl ZeroDivisionError"
    using window_last_empty[OF assms(2,1)] by (simp add: mean_mood_def truediv_def)
  moreover have "length ms - 1 \<in> set [0..<length ms]" using assms(2) by simp
  ultimately have "\<exists>e. comprehension (mean_mood ms k) [0..<length ms] = Inl e"
    by (rule comprehension_fails[rotated])
  then obtain e where e: "comprehension (mean_mood ms k) [0..<length ms] = Inl e" ..
  from comprehension_Inl[OF e] obtain i where "mean_mood ms k i = Inl e" ..
  then have "e = ZeroDivisionError" by (rule mean_mood_err)
  with e show ?thesis by (simp add: smooth_moods_eq)
qed

lemma smooth_ints_ok:
  assumes "1 \<le> k \<or> xs = []"
  shows "\<exists>out. smooth_ints xs k = Inr out \<and> length out = length xs"
proof -
  have "\<exists>ys. comprehension (mean_int xs k) [0..<length xs] = Inr ys"
    using assms by (intro comprehension_total) (auto intro: mean_int_ok)
  then show ?thesis
    using comprehension_length by (fastforce simp: smooth_ints_eq)
qed


lemma set_window: "set (window xs i k) \<subseteq> set xs"
  by (auto simp: window_def py_slice_def Let_def dest: in_set_takeD in_set_dropD)



lemma smooth_note_len_length:
  "smooth_note_len ms k = Inr out \<Longrightarrow> length out = length ms"
  using comprehension_length by (fastforce simp: smooth_note_len_eq)

section \<open>The worked example\<close>

text \<open>
  C1. The spec's example: the entries dated 2024-01-01 to 2024-01-03 with scores 1, 5, 3,
  smoothed with \<open>k = 1\<close>. The slice \<^verbatim>\<open>moods[start:end]\<close> excludes its end index
  \<open>i + k\<close>, so the windows are \<open>[1]\<close>, \<open>[1, 5]\<close> and \<open>[5, 3]\<close> and the smoothed
  scores are 1, 3 and 4; they are not the 3, 3, 4 of the example, whose windows include
  index \<open>i + k\<close>.
\<close>

theorem example_smoothed_scores: "smoothed_scores example_moods 1 = Inr [1, 3, 4]"
  by (simp add: smoothed_scores_def smooth_moods_def example_moods_def py_slice_def
      truediv_def upt_rec Let_def)

theorem example_smoothed_scores_counterexample:
  "smoothed_scores example_moods 1 \<noteq> Inr [3, 3, 4]"
  by (simp add: smoothed_scores_def smooth_moods_def example_moods_def py_slice_def
      truediv_def upt_rec Let_def)

section \<open>The window\<close>

lemma window_nth:
  assumes "1 \<le> k" and "i < length xs"
  shows "window xs i k ! (i - nat (max 0 (int i - k))) = xs ! i"
  using assms by (auto simp: window_def py_slice_def Let_def min_def max_def nat_diff_distrib)




lemma smooth_moods_nth:
  assumes "smooth_moods ms k = Inr out" and "i < length ms"
  shows "\<exists>s. truediv (sum_list (map score (window ms i k))) (int (length (window ms i k)))
              = Inr s \<and>
             out ! i = \<lparr>type = type (ms ! i), date = date (ms ! i), score = s,
                         notes' = notes' (ms ! i)\<rparr>"
proof -
  have c: "comprehension (mean_mood ms k) [0..<length ms] = Inr out"
    using assms(1) by (simp add: smooth_moods_eq)
  have "mean_mood ms k i = Inr (out ! i)"
    using comprehension_nth[OF c, of i] assms(2) by simp
  then show ?thesis
    by (auto simp: mean_mood_def split: sum.splits)
qed

lemma smooth_moods_length: "smooth_moods ms k = Inr out \<Longrightarrow> length out = length ms"
  using comprehension_length[of "mean_mood ms k" "[0..<length ms]" out]
  by (simp add: smooth_moods_eq)

text \<open>
  C2. For every index \<open>i\<close> of a sequence of length \<open>n\<close> and every \<open>k \<ge> 0\<close> the window
  has \<open>min(n, i + k) - max(0, i - k)\<close> elements. For \<open>k \<ge> 1\<close> this size lies in
  \<open>[1, 2k + 1]\<close>. For \<open>k = 0\<close> the formula gives \<open>i - i = 0\<close>: the window is empty, so the
  lower bound 1 of the claim does not hold there.
\<close>

theorem window_length_bounds:
  assumes "i < length xs" and "0 \<le> k"
  shows "int (length (window xs i k)) = min (int (length xs)) (int i + k) - max 0 (int i - k) \<and>
         (1 \<le> k \<longrightarrow> 1 \<le> length (window xs i k) \<and> int (length (window xs i k)) \<le> 2 * k + 1)"
proof -
  have "1 \<le> length (window xs i k)" if "1 \<le> k"
    using window_nonempty[OF assms(1) that] by (cases "window xs i k") auto
  moreover have "int (length (window xs i k)) \<le> 2 * k + 1"
    using window_upper[OF assms] by simp
  ultimately show ?thesis using length_window[OF assms] by blast
qed

theorem window_length_bounds_witness:
  "(1::nat) < length [1::int, 5, 3] \<and> (0::int) \<le> 1 \<and> (1::int) \<le> 1 \<and>
   int (length (window [1::int, 5, 3] 1 1)) = 2 \<and> 1 \<le> length (window [1::int, 5, 3] 1 1)"
  using window_length_bounds[of 1 "[1::int, 5, 3]" 1] by simp

theorem window_length_bounds_counterexample:
  "length (window [5::int] 0 0) = 0 \<and>
   \<not> 1 \<le> min (int (length [5::int])) (int 0 + 0) - max 0 (int 0 - 0)"
  by (simp add: window_def py_slice_def)




text \<open>
  C4. With \<open>k = 0\<close> the window \<^verbatim>\<open>moods[i:i]\<close> is empty: smoothing the empty sequence
  returns the empty sequence, and smoothing any other sequence raises
  \<^verbatim>\<open>ZeroDivisionError\<close>. It is not the identity on scores.
\<close>

theorem smooth_zero_window:
  "smoothed_scores [] 0 = Inr [] \<and> smoothed_scores (m # ms) 0 = Inl ZeroDivisionError"
proof
  show "smoothed_scores [] 0 = Inr []"
    by (simp add: smoothed_scores_def smooth_moods_def)
  have "smooth_moods (m # ms) 0 = Inl ZeroDivisionError"
    by (rule smooth_moods_fail) simp_all
  then show "smoothed_scores (m # ms) 0 = Inl ZeroDivisionError"
    by (simp add: smoothed_scores_def)
qed

theorem smooth_zero_window_counterexample:
  "smoothed_scores example_moods 0 \<noteq> Inr [1, 5, 3]"
  by (simp add: smoothed_scores_def smooth_moods_def example_moods_def py_slice_def
      truediv_def upt_rec Let_def)

text \<open>
  C10. For \<open>k \<ge> 1\<close> and \<open>i < n\<close> the bounds satisfy \<open>start \<le> i < end\<close>, the window
  holds the element of index \<open>i\<close> (at position \<open>i - start\<close>) and is not empty, so the
  division by its length does not raise, and neither \<^verbatim>\<open>smooth_ints\<close> nor
  \<^verbatim>\<open>smooth_moods\<close> raises \<^verbatim>\<open>ZeroDivisionError\<close>.
\<close>

theorem window_contains_index:
  assumes "1 \<le> k" and "i < length xs"
  shows "max 0 (int i - k) \<le> int i \<and> int i < min (int (length xs)) (int i + k) \<and>
         window xs i k ! (i - nat (max 0 (int i - k))) = xs ! i \<and>
         window xs i k \<noteq> [] \<and>
         truediv s (int (length (window xs i k))) \<noteq> Inl ZeroDivisionError \<and>
         smooth_ints ints k \<noteq> Inl ZeroDivisionError \<and>
         smooth_moods ms k \<noteq> Inl ZeroDivisionError"
proof -
  have "max 0 (int i - k) \<le> int i \<and> int i < min (int (length xs)) (int i + k)"
    using assms by simp
  moreover have "window xs i k \<noteq> []"
    using assms by (simp add: window_nonempty)
  moreover from this have
    "truediv s (int (length (window xs i k))) \<noteq> Inl ZeroDivisionError"
    by (simp add: truediv_def)
  moreover have "smooth_ints ints k \<noteq> Inl ZeroDivisionError"
    using smooth_ints_ok[of k ints] assms(1) by auto
  moreover have "smooth_moods ms k \<noteq> Inl ZeroDivisionError"
    using smooth_moods_ok[of k ms] assms(1) by auto
  ultimately show ?thesis using window_nth[OF assms] by blast
qed

theorem window_contains_index_witness:
  "((1::int) \<le> 1 \<and> (2::nat) < length [1::int, 5, 3]) \<and>
   window [1::int, 5, 3] 2 1 ! (2 - nat (max 0 (int 2 - 1))) = [1, 5, 3] ! 2 \<and>
   window [1::int, 5, 3] 2 1 \<noteq> [] \<and>
   smooth_ints [1, 5, 3] 1 \<noteq> Inl ZeroDivisionError \<and>
   smooth_moods example_moods 1 \<noteq> Inl ZeroDivisionError"
proof -
  have one: "(1::int) \<le> 1" and lt: "(2::nat) < length [1::int, 5, 3]"
    by simp_all
  show ?thesis
    using window_contains_index[OF one lt, of 0 "[1, 5, 3]" example_moods] one lt
    by blast
qed

text \<open>
  On values: whenever \<^verbatim>\<open>smooth_moods\<close> returns, the entry at each index carries the
  type, date and notes of the input entry at that index, and its score is the mean over
  the window; for \<open>k \<ge> 1\<close> it does return.
\<close>

lemma smooth_moods_fields:
  "(\<forall>out. smooth_moods ms k = Inr out \<longrightarrow>
      length out = length ms \<and>
      (\<forall>i < length ms.
         type (out ! i) = type (ms ! i) \<and> date (out ! i) = date (ms ! i) \<and>
         notes' (out ! i) = notes' (ms ! i) \<and>
         truediv (sum_list (map score (window ms i k))) (int (length (window ms i k)))
           = Inr (score (out ! i)))) \<and>
   (1 \<le> k \<longrightarrow> (\<exists>out. smooth_moods ms k = Inr out))"
proof -
  have "type (out ! i) = type (ms ! i) \<and> date (out ! i) = date (ms ! i) \<and>
         notes' (out ! i) = notes' (ms ! i) \<and>
         truediv (sum_list (map score (window ms i k))) (int (length (window ms i k)))
           = Inr (score (out ! i))"
    if "smooth_moods ms k = Inr out" and "i < length ms" for out i
    using smooth_moods_nth[OF that] by auto
  moreover have "\<exists>out. smooth_moods ms k = Inr out" if "1 \<le> k"
    using smooth_moods_ok[of k ms] that by blast
  ultimately show ?thesis using smooth_moods_length by blast
qed

lemma smooth_moods_fields_example:
  "(1::int) \<le> 1 \<and> (2::nat) < length example_moods \<and>
   (\<exists>out. smooth_moods example_moods 1 = Inr out \<and>
      length out = length example_moods \<and> type (out ! 2) = type (example_moods ! 2) \<and>
      date (out ! 2) = date (example_moods ! 2) \<and>
      notes' (out ! 2) = notes' (example_moods ! 2))"
proof -
  have one: "(1::int) \<le> 1" by simp
  have lt: "(2::nat) < length example_moods" by (simp add: example_moods_def)
  show ?thesis
    using smooth_moods_fields[of example_moods 1] one lt by blast
qed

section \<open>Monthly aggregation\<close>

lemma map_of_Some_key: "map_of r k = Some vs \<Longrightarrow> k \<in> set (map fst r)"
  using map_of_SomeD[of r k vs] by (force simp: image_iff)

lemma update_present_keys:
  "map_of r k = Some vs \<Longrightarrow> map fst (AList.update k v r) = map fst r"
  using map_of_Some_key[of r k vs] by (simp add: update_keys)

lemma mset_concat_update:
  "map_of r k = Some vs \<Longrightarrow>
   mset (concat (map snd (AList.update k (vs @ [x]) r))) = mset (concat (map snd r)) + {#x#}"
  by (induction r) (auto split: if_splits)

lemma set_update_present:
  "map_of r k = Some vs \<Longrightarrow> g \<in> set (AList.update k v r) \<Longrightarrow> g \<in> set r \<or> g = (k, v)"
  by (induction r) (auto split: if_splits)

lemma grouped_update:
  assumes "grouped func r" and "map_of r (func x) = Some vs"
  shows "grouped func (AList.update (func x) (vs @ [x]) r)"
proof -
  have mem: "(func x, vs) \<in> set r" using assms(2) by (rule map_of_SomeD)
  have "distinct (map fst (AList.update (func x) (vs @ [x]) r))"
    using assms by (simp add: grouped_def update_present_keys)
  moreover have "snd g \<noteq> [] \<and> (\<forall>y \<in> set (snd g). func y = fst g)"
    if "g \<in> set (AList.update (func x) (vs @ [x]) r)" for g
  proof -
    from set_update_present[OF assms(2) that] show ?thesis
    proof
      assume "g \<in> set r"
      then show ?thesis using assms(1) by (simp add: grouped_def)
    next
      assume "g = (func x, vs @ [x])"
      then show ?thesis using assms(1) mem by (auto simp: grouped_def)
    qed
  qed
  ultimately show ?thesis by (simp add: grouped_def)
qed

lemma grouped_append:
  assumes "grouped func r" and "map_of r (func x) = None"
  shows "grouped func (r @ [(func x, [x])])"
  using assms by (auto simp: grouped_def map_of_eq_None_iff)

lemma group_by_impl_inv:
  "grouped func r \<Longrightarrow>
   grouped func (group_by_impl func xs r) \<and>
   mset (concat (map snd (group_by_impl func xs r))) = mset (concat (map snd r)) + mset xs \<and>
   set (map fst (group_by_impl func xs r)) = set (map fst r) \<union> func ` set xs"
proof (induction xs arbitrary: r)
  case Nil
  then show ?case by simp
next
  case (Cons x xs)
  show ?case
  proof (cases "map_of r (func x)")
    case None
    from Cons.IH[OF grouped_append[OF Cons.prems None]] None
    show ?thesis by auto
  next
    case (Some vs)
    from Cons.IH[OF grouped_update[OF Cons.prems Some]] Some
    show ?thesis
      by (auto simp: mset_concat_update update_present_keys dest: map_of_Some_key)
  qed
qed

lemma group_by_grouped: "grouped func (group_by func xs)"
  using group_by_impl_inv[of func "[]" xs] by (simp add: group_by_def grouped_def)

lemma group_by_mset: "mset (concat (map snd (group_by func xs))) = mset xs"
  using group_by_impl_inv[of func "[]" xs] by (simp add: group_by_def grouped_def)



lemma group_by_sizes:
  "sum_list (map (\<lambda>g. length (snd g)) (group_by func xs)) = length xs"
proof -
  have "sum_list (map (\<lambda>g. length (snd g)) (group_by func xs))
        = length (concat (map snd (group_by func xs)))"
    by (simp add: length_concat comp_def)
  also have "\<dots> = size (mset (concat (map snd (group_by func xs))))" by simp
  also have "\<dots> = length xs" by (simp only: group_by_mset size_mset)
  finally show ?thesis .
qed

lemma group_by_unique:
  assumes "x \<in> set xs"
  shows "\<exists>!g. g \<in> set (group_by func xs) \<and> x \<in> set (snd g)"
proof -
  let ?gs = "group_by func xs"
  have g: "grouped func ?gs" by (rule group_by_grouped)
  have "x \<in># mset (concat (map snd ?gs))" using assms by (simp only: group_by_mset) simp
  then obtain g where g1: "g \<in> set ?gs" "x \<in> set (snd g)" by auto
  have "g' = g" if "g' \<in> set ?gs" "x \<in> set (snd g')" for g'
  proof -
    have "func x = fst g" using g g1 unfolding grouped_def by blast
    moreover have "func x = fst g'" using g that unfolding grouped_def by blast
    ultimately have "fst g' = fst g" by simp
    moreover have "inj_on fst (set ?gs)" using g by (simp add: grouped_def distinct_map)
    ultimately show ?thesis using g1(1) that(1) by (auto dest: inj_onD)
  qed
  with g1 show ?thesis by blast
qed

lemma example_year_groups:
  "group_by year_month example_year =
     [((2024, 1), [example_year ! 0, example_year ! 2]),
      ((2024, 2), [example_year ! 1]),
      ((2024, 3), [example_year ! 3])]"
  by (simp add: group_by_def example_year_def year_month_def)

text \<open>
  C6. The month groups partition the entries: every entry lies in exactly one group, every
  element of a group has the group's key as the (year, month) of its date, the sizes of
  the groups add up to the number of entries, and the groups together hold the entries
  with their multiplicities.
\<close>

theorem month_groups_partition:
  "(\<forall>x \<in> set moods. \<exists>!g. g \<in> set (group_by year_month moods) \<and> x \<in> set (snd g)) \<and>
   (\<forall>g \<in> set (group_by year_month moods). \<forall>x \<in> set (snd g).
      fst g = (year (date x), month (date x))) \<and>
   sum_list (map (\<lambda>g. length (snd g)) (group_by year_month moods)) = length moods \<and>
   mset (concat (map snd (group_by year_month moods))) = mset moods"
proof -
  have "\<forall>g \<in> set (group_by year_month moods). \<forall>x \<in> set (snd g).
      fst g = (year (date x), month (date x))"
    using group_by_grouped[of year_month moods] by (auto simp: grouped_def year_month_def)
  then show ?thesis
    using group_by_unique[of _ moods year_month] group_by_sizes[of year_month moods]
      group_by_mset[of year_month moods]
    by blast
qed

theorem month_groups_partition_witness:
  "example_year ! 2 \<in> set example_year \<and>
   ((2024, 1), [example_year ! 0, example_year ! 2]) \<in> set (group_by year_month example_year) \<and>
   (\<exists>!g. g \<in> set (group_by year_month example_year) \<and> example_year ! 2 \<in> set (snd g)) \<and>
   sum_list (map (\<lambda>g. length (snd g)) (group_by year_month example_year))
     = length example_year \<and>
   mset (concat (map snd (group_by year_month example_year))) = mset example_year"
proof -
  have m: "example_year ! 2 \<in> set example_year" by (simp add: example_year_def)
  have g: "((2024, 1), [example_year ! 0, example_year ! 2])
             \<in> set (group_by year_month example_year)"
    by (simp only: example_year_groups) simp
  show ?thesis using month_groups_partition[of example_year] m g by blast
qed

section \<open>Ranking\<close>















section \<open>Entry parsing\<close>

lemma read_moods_fails:
  assumes "from_dict strptime int_of_str data = Inl e"
  shows "\<exists>e'. read_moods strptime int_of_str (before @ data # after) = Inl e'"
proof -
  have "data \<in> set (before @ data # after)" by simp
  then show ?thesis
    unfolding read_moods_def
    using comprehension_fails[of data "before @ data # after"
        "from_dict strptime int_of_str" e] assms
    by blast
qed

text \<open>
  C7. A record whose date string \<^verbatim>\<open>strptime\<close> accepts under \<^verbatim>\<open>"%Y-%m-%d"\<close> and whose
  score list starts with an integer is parsed into an entry with that date and with the
  first score; the rest of the score list is not read. A date string that
  \<^verbatim>\<open>strptime\<close> rejects raises \<^verbatim>\<open>ValueError\<close>, and a record that raises makes the whole
  batch raise, wherever it stands in the batch.
\<close>

theorem from_dict_score_and_date:
  "(data ''date'' = Some (JStr d) \<and> strptime d ''%Y-%m-%d'' = Some dt \<and>
    data ''scores'' = Some (JList (JInt s # rest)) \<longrightarrow>
      from_dict strptime int_of_str data =
        Inr \<lparr>type = dict_get data ''type'', date = dt, score = s,
             notes' = dict_get data ''notes''\<rparr>) \<and>
   (data ''date'' = Some (JStr d) \<and> strptime d ''%Y-%m-%d'' = None \<longrightarrow>
      from_dict strptime int_of_str data = Inl ValueError \<and>
      (\<exists>e. read_moods strptime int_of_str (before @ data # after) = Inl e))"
proof (intro conjI impI)
  assume "data ''date'' = Some (JStr d) \<and> strptime d ''%Y-%m-%d'' = Some dt \<and>
    data ''scores'' = Some (JList (JInt s # rest))"
  then show "from_dict strptime int_of_str data =
        Inr \<lparr>type = dict_get data ''type'', date = dt, score = s,
             notes' = dict_get data ''notes''\<rparr>"
    by (simp add: from_dict_def dict_get_def)
next
  assume a: "data ''date'' = Some (JStr d) \<and> strptime d ''%Y-%m-%d'' = None"
  then show f: "from_dict strptime int_of_str data = Inl ValueError"
    by (simp add: from_dict_def dict_get_def)
  then show "\<exists>e. read_moods strptime int_of_str (before @ data # after) = Inl e"
    by (rule read_moods_fails)
qed

theorem from_dict_score_and_date_witness:
  "(example_record ''date'' = Some (JStr ''2024-01-02'') \<and>
    example_strptime ''2024-01-02'' ''%Y-%m-%d'' = Some \<lparr>year = 2024, month = 1, day = 2\<rparr> \<and>
    example_record ''scores'' = Some (JList (JInt 5 # [JInt 9]))) \<and>
   from_dict example_strptime (\<lambda>s. None) example_record =
     Inr \<lparr>type = JStr ''Mood'', date = \<lparr>year = 2024, month = 1, day = 2\<rparr>, score = 5,
          notes' = JStr ''bb''\<rparr> \<and>
   (example_bad_record ''date'' = Some (JStr ''02/01/2024'') \<and>
    example_strptime ''02/01/2024'' ''%Y-%m-%d'' = None) \<and>
   from_dict example_strptime (\<lambda>s. None) example_bad_record = Inl ValueError \<and>
   (\<exists>e. read_moods example_strptime (\<lambda>s. None)
           ([example_record] @ example_bad_record # [example_record]) = Inl e)"
proof -
  have good: "example_record ''date'' = Some (JStr ''2024-01-02'') \<and>
    example_strptime ''2024-01-02'' ''%Y-%m-%d'' = Some \<lparr>year = 2024, month = 1, day = 2\<rparr> \<and>
    example_record ''scores'' = Some (JList (JInt 5 # [JInt 9]))"
    by (simp add: example_record_def example_strptime_def)
  have bad: "example_bad_record ''date'' = Some (JStr ''02/01/2024'') \<and>
    example_strptime ''02/01/2024'' ''%Y-%m-%d'' = None"
    by (simp add: example_bad_record_def example_strptime_def)
  have fields: "dict_get example_record ''type'' = JStr ''Mood''"
    "dict_get example_record ''notes'' = JStr ''bb''"
    by (simp_all add: example_record_def dict_get_def)
  from from_dict_score_and_date[of example_record "''2024-01-02''" example_strptime
      "\<lparr>year = 2024, month = 1, day = 2\<rparr>" 5 "[JInt 9]" "\<lambda>s. None"] good
  have 1: "from_dict example_strptime (\<lambda>s. None) example_record =
     Inr \<lparr>type = JStr ''Mood'', date = \<lparr>year = 2024, month = 1, day = 2\<rparr>, score = 5,
          notes' = JStr ''bb''\<rparr>"
    by (simp only: fields)
  from from_dict_score_and_date[of example_bad_record "''02/01/2024''" example_strptime
      _ _ _ "\<lambda>s. None" "[example_record]" "[example_record]"] bad
  have 2: "from_dict example_strptime (\<lambda>s. None) example_bad_record = Inl ValueError \<and>
   (\<exists>e. read_moods example_strptime (\<lambda>s. None)
           ([example_record] @ example_bad_record # [example_record]) = Inl e)"
    by blast
  from good 1 bad 2 show ?thesis by blast
qed

section \<open>Keyword occurrences\<close>

lemma count_words_str:
  "count_words words (JStr s) = Inr (int (card {w \<in> words. sublist w (lower s)}))"
  by (simp add: count_words_def)

lemma card_lowered:
  assumes "inj_on lower words"
  shows "card {w \<in> lower ` words. sublist w s} = card {w \<in> words. sublist (lower w) s}"
proof -
  have "{w \<in> lower ` words. sublist w s} = lower ` {w \<in> words. sublist (lower w) s}"
    by auto
  moreover have "inj_on lower {w \<in> words. sublist (lower w) s}"
    by (rule inj_on_subset[OF assms]) auto
  ultimately show ?thesis by (simp add: card_image)
qed

lemma word_count_ok:
  assumes "\<And>m. m \<in> set ms \<Longrightarrow> notes' m = JStr (text m)"
  shows "comprehension
           (\<lambda>x. case count_words ws (notes' x) of Inl e \<Rightarrow> Inl e | Inr c \<Rightarrow> Inr (date x, c)) ms
         = Inr (map (\<lambda>m. (date m, int (card {w \<in> ws. sublist w (lower (text m))}))) ms)"
  by (rule comprehension_map) (simp add: assms count_words_str)

text \<open>
  C8. For entries whose notes are text, the count of an entry is the number of target
  words, taken in lower case, that are substrings of the note in lower case; two target
  words that differ only in case are one word there, and where no two do, this is the
  number of target words that occur in the note without regard to case. The series of
  the counts is then smoothed with the window 14, which never raises.
\<close>

theorem keyword_counts:
  assumes "\<forall>m \<in> set ms. notes' m = JStr (text m)"
  shows "(\<exists>smoothed.
            plot_days_containing_words ms words =
              Inr (map (\<lambda>m. (date m,
                     int (card {w \<in> lower ` words. sublist w (lower (text m))}))) ms,
                   smoothed) \<and>
            smooth_ints
              (map (\<lambda>m. int (card {w \<in> lower ` words. sublist w (lower (text m))})) ms) 14
              = Inr smoothed \<and>
            length smoothed = length ms) \<and>
         (inj_on lower words \<longrightarrow>
            (\<forall>m. card {w \<in> lower ` words. sublist w (lower (text m))} =
                 card {w \<in> words. sublist (lower w) (lower (text m))}))"
proof
  let ?c = "\<lambda>m. int (card {w \<in> lower ` words. sublist w (lower (text m))})"
  have wc: "comprehension
           (\<lambda>x. case count_words (lower ` words) (notes' x) of
                   Inl e \<Rightarrow> Inl e | Inr c \<Rightarrow> Inr (date x, c)) ms
         = Inr (map (\<lambda>m. (date m, ?c m)) ms)"
    using assms by (intro word_count_ok) simp
  obtain smoothed where sm: "smooth_ints (map ?c ms) 14 = Inr smoothed"
    "length smoothed = length (map ?c ms)"
    using smooth_ints_ok[of 14 "map ?c ms"] by auto
  have "plot_days_containing_words ms words = Inr (map (\<lambda>m. (date m, ?c m)) ms, smoothed)"
    unfolding plot_days_containing_words_def Let_def wc
    using sm(1) by (simp add: comp_def)
  with sm show "\<exists>smoothed.
            plot_days_containing_words ms words = Inr (map (\<lambda>m. (date m, ?c m)) ms, smoothed) \<and>
            smooth_ints (map ?c ms) 14 = Inr smoothed \<and>
            length smoothed = length ms"
    by simp
next
  show "inj_on lower words \<longrightarrow>
            (\<forall>m. card {w \<in> lower ` words. sublist w (lower (text m))} =
                 card {w \<in> words. sublist (lower w) (lower (text m))})"
    using card_lowered by blast
qed

lemma example_words_inj: "inj_on lower {''RAIN'', ''sun''}"
proof -
  have "lower ''RAIN'' = ''rain''" and "lower ''sun'' = ''sun''" by code_simp+
  then show ?thesis by simp
qed

lemma example_year_text: "\<forall>m \<in> set example_year. notes' m = JStr (note_text m)"
  by (simp add: example_year_def note_text_def)

lemma example_word_count:
  "plot_days_containing_words example_year {''RAIN'', ''sun''} =
     Inr ([(\<lparr>year = 2024, month = 1, day = 31\<rparr>, 1),
           (\<lparr>year = 2024, month = 2, day = 1\<rparr>, 1),
           (\<lparr>year = 2024, month = 1, day = 15\<rparr>, 0),
           (\<lparr>year = 2024, month = 3, day = 1\<rparr>, 1)],
          [3 / 4, 3 / 4, 3 / 4, 3 / 4])"
  by code_simp

text \<open>Two target words that differ only in case count once.\<close>

lemma example_case_variants:
  "plot_days_containing_words [example_year ! 3] {''RAIN'', ''rain''} =
     Inr ([(\<lparr>year = 2024, month = 3, day = 1\<rparr>, 1)], [1])"
  by code_simp

theorem keyword_counts_witness:
  "inj_on lower {''RAIN'', ''sun''} \<and>
   plot_days_containing_words example_year {''RAIN'', ''sun''} =
     Inr ([(\<lparr>year = 2024, month = 1, day = 31\<rparr>, 1),
           (\<lparr>year = 2024, month = 2, day = 1\<rparr>, 1),
           (\<lparr>year = 2024, month = 1, day = 15\<rparr>, 0),
           (\<lparr>year = 2024, month = 3, day = 1\<rparr>, 1)],
          [3 / 4, 3 / 4, 3 / 4, 3 / 4]) \<and>
   (\<exists>smoothed.
      plot_days_containing_words example_year {''RAIN'', ''sun''} =
        Inr (map (\<lambda>m. (date m,
               int (card {w \<in> lower ` {''RAIN'', ''sun''}. sublist w (lower (note_text m))})))
               example_year,
             smoothed) \<and>
      length smoothed = length example_year) \<and>
   card {w \<in> lower ` {''RAIN'', ''sun''}. sublist w (lower (note_text (example_year ! 0)))} =
     card {w \<in> {''RAIN'', ''sun''}. sublist (lower w) (lower (note_text (example_year ! 0)))}"
  using keyword_counts[OF example_year_text, of "{''RAIN'', ''sun''}"]
    example_words_inj example_word_count
  by blast

section \<open>Smoothing on the store\<close>

lemma store_loop_eq:
  assumes "\<forall>r \<in> set moods. r < length h" and "\<forall>i \<in> set is. i < length moods"
  shows "smooth_moods_store_loop (h @ ext) moods k is acc =
           (case comprehension (mean_object h moods k) is of
              Inl e \<Rightarrow> Inl e
            | Inr ys \<Rightarrow>
                Inr (h @ ext @ ys,
                     acc @ [length h + length ext ..< length h + length ext + length ys]))"
  using assms(2)
proof (induction "is" arbitrary: ext acc)
  case Nil
  then show ?case by simp
next
  case (Cons i "is")
  have rd: "(h @ ext) ! r = h ! r" if "r \<in> set moods" for r
    using assms(1) that by (simp add: nth_append)
  have "moods ! i \<in> set moods" using Cons.prems by simp
  then have at: "(h @ ext) ! (moods ! i) = h ! (moods ! i)" by (rule rd)
  have m: "map (\<lambda>mood. score ((h @ ext) ! mood)) (window moods i k)
        = map (\<lambda>mood. score (h ! mood)) (window moods i k)"
    using set_window[of moods i k] by (intro map_cong refl) (auto simp: rd)
  have step: "truediv_number
            (py_sum (map (\<lambda>mood. score ((h @ ext) ! mood)) (window moods i k)))
            (int (length (window moods i k)))
        = truediv_number (py_sum (map (\<lambda>mood. score (h ! mood)) (window moods i k)))
            (int (length (window moods i k)))"
    by (simp only: m)
  have w: "py_slice moods (max 0 (int i - k)) (min (int (length moods)) (int i + k))
           = window moods i k"
    by (simp add: window_def)
  show ?case
  proof (cases "mean_object h moods k i")
    case (Inl e)
    then show ?thesis
      using step by (simp add: mean_object_def Let_def window_def split: sum.splits)
  next
    case (Inr y)
    then obtain s where s: "truediv_number
            (py_sum (map (\<lambda>mood. score (h ! mood)) (window moods i k)))
            (int (length (window moods i k))) = Inr s"
      and y: "y = \<lparr>type = type (h ! (moods ! i)), date = date (h ! (moods ! i)), score = s,
               notes' = notes' (h ! (moods ! i))\<rparr>"
      by (auto simp: mean_object_def split: sum.splits)
    have "smooth_moods_store_loop (h @ ext) moods k (i # is) acc
          = smooth_moods_store_loop (h @ (ext @ [y])) moods k is
              (acc @ [length h + length ext])"
      using step s by (simp add: Let_def w at y)
    also have "\<dots> = (case comprehension (mean_object h moods k) is of
              Inl e \<Rightarrow> Inl e
            | Inr ys \<Rightarrow>
                Inr (h @ (ext @ [y]) @ ys,
                     (acc @ [length h + length ext]) @
                       [length h + length (ext @ [y]) ..<
                          length h + length (ext @ [y]) + length ys]))"
      using Cons.prems by (intro Cons.IH) simp
    finally show ?thesis
      using Inr by (simp add: upt_rec[of "length h + length ext"] split: sum.splits)
  qed
qed

lemma smooth_moods_store_eq:
  assumes "\<forall>r \<in> set moods. r < length h"
  shows "smooth_moods_store h moods k =
           (case comprehension (mean_object h moods k) [0..<length moods] of
              Inl e \<Rightarrow> Inl e
            | Inr ys \<Rightarrow> Inr (h @ ys, [length h ..< length h + length ys]))"
  using store_loop_eq[OF assms, of "[0..<length moods]" "[]" k "[]"]
  by (simp add: smooth_moods_store_def split: sum.splits)

text \<open>
  The two models agree: on references to objects with \<^verbatim>\<open>int\<close> scores, smoothing on the
  store allocates the entries that smoothing on values returns.
\<close>

lemma py_slice_map: "py_slice (map f xs) a b = map f (py_slice xs a b)"
  by (simp add: py_slice_def Let_def take_map drop_map)

lemma window_map: "window (map f xs) i k = map f (window xs i k)"
  by (simp add: window_def Let_def py_slice_map)

lemma foldl_add_ints: "foldl add (IntNum a) (map IntNum ns) = IntNum (a + sum_list ns)"
  by (induction ns arbitrary: a) (simp_all add: add.assoc)

lemma py_sum_ints: "py_sum (map IntNum ns) = IntNum (sum_list ns)"
  by (simp add: py_sum_def foldl_add_ints)

lemma comprehension_compose:
  "(\<And>x. x \<in> set xs \<Longrightarrow> f x = (case g x of Inl e \<Rightarrow> Inl e | Inr y \<Rightarrow> Inr (c y))) \<Longrightarrow>
   comprehension f xs = (case comprehension g xs of Inl e \<Rightarrow> Inl e | Inr ys \<Rightarrow> Inr (map c ys))"
  by (induction xs) (auto split: sum.splits)

lemma mean_object_mean_mood:
  assumes "\<forall>r \<in> set moods. \<exists>n. score (h ! r) = IntNum n" and "i < length moods"
  shows "mean_object h moods k i =
           (case mean_mood (map (\<lambda>r. int_entry (h ! r)) moods) k i of
              Inl e \<Rightarrow> Inl e
            | Inr m \<Rightarrow> Inr (float_object m))"
proof -
  let ?ms = "map (\<lambda>r. int_entry (h ! r)) moods"
  have "score (h ! r) = IntNum (score (int_entry (h ! r)))" if "r \<in> set (window moods i k)" for r
  proof -
    from that have "r \<in> set moods" using set_window[of moods i k] by blast
    then obtain n where "score (h ! r) = IntNum n" using assms(1) by blast
    then show ?thesis by (simp add: int_entry_def)
  qed
  then have "map (\<lambda>mood. score (h ! mood)) (window moods i k)
             = map IntNum (map score (window ?ms i k))"
    by (simp add: window_map)
  then have s: "py_sum (map (\<lambda>mood. score (h ! mood)) (window moods i k))
             = IntNum (sum_list (map score (window ?ms i k)))"
    by (simp only: py_sum_ints)
  have l: "length (window ?ms i k) = length (window moods i k)"
    by (simp add: window_map)
  have e: "?ms ! i = int_entry (h ! (moods ! i))"
    using assms(2) by simp
  show ?thesis
    unfolding mean_object_def mean_mood_def s l e
    by (simp add: truediv_number_def truediv_def float_object_def int_entry_def)
qed

lemma smooth_moods_store_refines:
  assumes "\<forall>r \<in> set moods. r < length h"
    and "\<forall>r \<in> set moods. \<exists>n. score (h ! r) = IntNum n"
  shows "smooth_moods_store h moods k =
           (case smooth_moods (map (\<lambda>r. int_entry (h ! r)) moods) k of
              Inl e \<Rightarrow> Inl e
            | Inr out \<Rightarrow>
                Inr (h @ map float_object out, [length h ..< length h + length out]))"
proof -
  let ?ms = "map (\<lambda>r. int_entry (h ! r)) moods"
  have "comprehension (mean_object h moods k) [0..<length moods]
        = (case comprehension (mean_mood ?ms k) [0..<length moods] of
             Inl e \<Rightarrow> Inl e | Inr ys \<Rightarrow> Inr (map float_object ys))"
    by (rule comprehension_compose) (simp add: mean_object_mean_mood[OF assms(2)])
  then show ?thesis
    by (simp add: smooth_moods_store_eq[OF assms(1)] smooth_moods_eq split: sum.splits)
qed








lemma example_store_smoothed:
  "smooth_moods_store example_store [0, 1, 2] 1 =
     Inr (example_store @
            [\<lparr>type = JStr ''Mood'', date = \<lparr>year = 2024, month = 1, day = 1\<rparr>,
              score = FloatNum 1, notes' = JStr ''a''\<rparr>,
             \<lparr>type = JStr ''Mood'', date = \<lparr>year = 2024, month = 1, day = 2\<rparr>,
              score = FloatNum 3, notes' = JStr ''bb''\<rparr>,
             \<lparr>type = JStr ''Mood'', date = \<lparr>year = 2024, month = 1, day = 3\<rparr>,
              score = FloatNum 4, notes' = JStr ''ccc''\<rparr>],
          [3, 4, 5])"
  by (simp add: smooth_moods_store_def example_store_def example_moods_def py_slice_def
      truediv_number_def py_sum_def upt_rec Let_def)


end
